theory Spec2Isabelle
  imports Main
begin

section \<open>The Mergin browser plugin (src/Mergin/plugin.py)\<close>

text \<open>
  The plugin is glue between a GUI host, a settings store, the filesystem and an HTTP
  client. The embedding makes each of these explicit:
  \<^item> the settings store (QSettings) is a map from keys to strings, as the plugin only
    stores strings there; keys are paths with \<open>/\<close> as separator, and removing a key
    removes the settings below it as well;
  \<^item> the filesystem is a map from paths to the kind of entry found there;
  \<^item> the stack of override cursors of the application is a list;
  \<^item> every call that leaves the plugin (settings access, client call, dialog, project
    load) is appended to a trace, so that what an operation did can be read off;
  \<^item> the answers of the collaborators that are not part of the file (the client, the
    dialogs, \<open>find_qgis_files\<close>, \<open>shutil.rmtree\<close>) are the fields of an environment
    record, so that every theorem holds for whatever they answer;
  \<^item> an exception is a value of the type \<open>exn\<close>; an operation that can let one escape
    returns \<open>exn + unit\<close> beside the item and the world it leaves behind.
  The links of the browser tree (parent pointers, \<open>sip.transferto\<close>) are not modelled.
\<close>

subsection \<open>Data\<close>

datatype fs_node = File | Dir

type_synonym filesystem = "string \<rightharpoonup> fs_node"

text \<open>
  An exception is told by what an \<open>except\<close> clause of the file can tell: it is an
  instance of \<open>URLError\<close> (which includes \<open>HTTPError\<close>), or of \<open>ValueError\<close>, or of
  neither. Each carries its message.
\<close>

datatype exn = URLError string | ValueError string | OtherException string

text \<open>\<open>str(err)\<close>: the message an exception carries.\<close>

fun str :: "exn \<Rightarrow> string" where
  "str (URLError m) = m"
| "str (ValueError m) = m"
| "str (OtherException m) = m"

datatype icon = FolderSolid | CloudSolid | CloudDownloadAltSolid | TrashSolid | IconPng

datatype item_state = NotPopulated | Populated

datatype cursor = WaitCursor

datatype button = Yes | No

datatype box = Question | Critical | Warning

record MerginClient =
  url :: string
  username :: string
  password :: string

text \<open>A project as the client lists it: a dictionary with at least the key \<open>name\<close>.\<close>

record project =
  name :: string

datatype event =
    SettingsValue string
  | SettingsSetValue string string
  | SettingsRemove string
  | AuthOk string string string
  | ProjectsList MerginClient "string list"
  | DownloadProject MerginClient string string
  | SetOverrideCursor cursor
  | RestoreOverrideCursor
  | MessageBox box string string
  | Rmtree string
  | ProjectRead string

record world =
  settings :: "string \<rightharpoonup> string"
  filesystem :: filesystem
  override_cursors :: "cursor list"
  trace :: "event list"

record env =
  getExistingDirectory :: string
  question :: "string \<Rightarrow> string \<Rightarrow> button"
  auth_ok :: "string \<Rightarrow> string \<Rightarrow> string \<Rightarrow> bool"
  projects_list :: "MerginClient \<Rightarrow> string list \<Rightarrow> exn + project list"
  download_project ::
    "MerginClient \<Rightarrow> string \<Rightarrow> string \<Rightarrow> filesystem \<Rightarrow> (exn + unit) \<times> filesystem"
  find_qgis_files :: "filesystem \<Rightarrow> string \<Rightarrow> string list"
  rmtree :: "filesystem \<Rightarrow> string \<Rightarrow> (exn + unit) \<times> filesystem"

record MerginProjectItem =
  project_name :: string
  item_path :: string
  path :: "string option"
  icon :: icon
  state :: item_state

datatype slot = slot_download | slot_remove_local_project | slot_open_project

record QAction =
  action_icon :: "icon option"
  action_text :: string
  triggered :: slot

datatype data_item =
    RootItem string string icon
  | ProjectItem MerginProjectItem
  | QgsErrorItem string string

subsection \<open>The calls that leave the plugin\<close>

definition emit :: "event \<Rightarrow> world \<Rightarrow> world" where
  "emit ev w = w\<lparr>trace := trace w @ [ev]\<rparr>"

text \<open>\<open>settings.value(key, default)\<close> with a string default, and with the default \<open>None\<close>.\<close>

definition settings_value :: "string \<Rightarrow> string \<Rightarrow> world \<Rightarrow> string \<times> world" where
  "settings_value key dflt w =
     ((case settings w key of None \<Rightarrow> dflt | Some v \<Rightarrow> v), emit (SettingsValue key) w)"

definition settings_value_None :: "string \<Rightarrow> world \<Rightarrow> string option \<times> world" where
  "settings_value_None key w = (settings w key, emit (SettingsValue key) w)"

definition settings_setValue :: "string \<Rightarrow> string \<Rightarrow> world \<Rightarrow> world" where
  "settings_setValue key v w =
     emit (SettingsSetValue key v) (w\<lparr>settings := (settings w)(key \<mapsto> v)\<rparr>)"

text \<open>
  \<open>settings.remove(key)\<close> removes the setting \<open>key\<close> and every sub-setting of it: the
  keys that continue \<open>key\<close> after a \<open>/\<close>.
\<close>

definition sub_setting :: "string \<Rightarrow> string \<Rightarrow> bool" where
  "sub_setting key k = (k = key \<or> take (Suc (length key)) k = key @ ''/'')"

definition settings_remove :: "string \<Rightarrow> world \<Rightarrow> world" where
  "settings_remove key w =
     emit (SettingsRemove key)
       (w\<lparr>settings := (\<lambda>k. if sub_setting key k then None else settings w k)\<rparr>)"

definition setOverrideCursor :: "cursor \<Rightarrow> world \<Rightarrow> world" where
  "setOverrideCursor c w =
     emit (SetOverrideCursor c) (w\<lparr>override_cursors := c # override_cursors w\<rparr>)"

text \<open>Restoring with no override cursor set does nothing, as in Qt: \<open>tl [] = []\<close>.\<close>

definition restoreOverrideCursor :: "world \<Rightarrow> world" where
  "restoreOverrideCursor w =
     emit RestoreOverrideCursor (w\<lparr>override_cursors := tl (override_cursors w)\<rparr>)"

definition QMessageBox_question :: "env \<Rightarrow> string \<Rightarrow> string \<Rightarrow> world \<Rightarrow> button \<times> world" where
  "QMessageBox_question e title msg w = (question e title msg, emit (MessageBox Question title msg) w)"

definition QMessageBox_critical :: "string \<Rightarrow> string \<Rightarrow> world \<Rightarrow> world" where
  "QMessageBox_critical title msg w = emit (MessageBox Critical title msg) w"

definition QMessageBox_warning :: "string \<Rightarrow> string \<Rightarrow> world \<Rightarrow> world" where
  "QMessageBox_warning title msg w = emit (MessageBox Warning title msg) w"

definition QgsProject_read :: "string \<Rightarrow> world \<Rightarrow> world" where
  "QgsProject_read f w = emit (ProjectRead f) w"

definition call_auth_ok :: "env \<Rightarrow> string \<Rightarrow> string \<Rightarrow> string \<Rightarrow> world \<Rightarrow> bool \<times> world" where
  "call_auth_ok e u n p w = (auth_ok e u n p, emit (AuthOk u n p) w)"

definition call_projects_list ::
  "env \<Rightarrow> MerginClient \<Rightarrow> string list \<Rightarrow> world \<Rightarrow> (exn + project list) \<times> world" where
  "call_projects_list e mc tags w = (projects_list e mc tags, emit (ProjectsList mc tags) w)"

definition call_download_project ::
  "env \<Rightarrow> MerginClient \<Rightarrow> string \<Rightarrow> string \<Rightarrow> world \<Rightarrow> (exn + unit) \<times> world" where
  "call_download_project e mc pn dir w =
     (let (r, fs) = download_project e mc pn dir (filesystem w)
      in (r, emit (DownloadProject mc pn dir) (w\<lparr>filesystem := fs\<rparr>)))"

definition call_rmtree :: "env \<Rightarrow> string \<Rightarrow> world \<Rightarrow> (exn + unit) \<times> world" where
  "call_rmtree e p w =
     (let (r, fs) = rmtree e (filesystem w) p
      in (r, emit (Rmtree p) (w\<lparr>filesystem := fs\<rparr>)))"

text \<open>\<open>os.path.exists\<close> holds of a regular file as well as of a directory.\<close>

definition os_path_exists :: "filesystem \<Rightarrow> string \<Rightarrow> bool" where
  "os_path_exists fs p = (fs p \<noteq> None)"

text \<open>\<open>os.path.join\<close> of two components, as \<open>posixpath\<close> defines it.\<close>

definition os_path_join :: "string \<Rightarrow> string \<Rightarrow> string" where
  "os_path_join a b =
     (if b \<noteq> [] \<and> hd b = CHR ''/'' then b
      else if a = [] \<or> last a = CHR ''/'' then a @ b
      else a @ ''/'' @ b)"

text \<open>Truth value of \<open>self.path\<close>: \<open>None\<close> and the empty string are false.\<close>

definition truthy :: "string option \<Rightarrow> bool" where
  "truthy p = (case p of None \<Rightarrow> False | Some s \<Rightarrow> s \<noteq> [])"

text \<open>The string behind a path that is known to be set.\<close>

fun path_string :: "string option \<Rightarrow> string" where
  "path_string (Some s) = s"
| "path_string None = []"

definition localProjects_key :: "string \<Rightarrow> string" where
  "localProjects_key pn = ''Mergin/localProjects/'' @ pn @ ''/path''"

subsection \<open>MerginProjectItem\<close>

definition MerginProjectItem_init :: "string \<Rightarrow> world \<Rightarrow> MerginProjectItem \<times> world" where
  "MerginProjectItem_init pn w =
     (let (p, w1) = settings_value_None (localProjects_key pn) w;
          p' = (if truthy p
                then (if \<not> os_path_exists (filesystem w1) (path_string p) then None else p)
                else p)
      in (\<lparr>project_name = pn, item_path = ''/Mergin/'' @ pn, path = p',
           icon = (if truthy p' then FolderSolid else CloudSolid),
           state = NotPopulated\<rparr>, w1))"

text \<open>The decimal numeral of a natural number, as \<open>format\<close> prints a length.\<close>

fun str_nat :: "nat \<Rightarrow> string" where
  "str_nat n =
     (if n < 10 then [''0123456789'' ! n]
      else str_nat (n div 10) @ [''0123456789'' ! (n mod 10)])"

definition open_project_msg :: "nat \<Rightarrow> string" where
  "open_project_msg k =
     ''Plugin can only load project with single QGIS file but '' @ str_nat k @ '' found.''"

definition open_project :: "env \<Rightarrow> MerginProjectItem \<Rightarrow> world \<Rightarrow> world" where
  "open_project e self w =
     (if \<not> truthy (path self) then w
      else
        let qgis_files = find_qgis_files e (filesystem w) (path_string (path self))
        in if length qgis_files = 1 then QgsProject_read (hd qgis_files) w
           else QMessageBox_warning ''Load QGIS project''
                  (open_project_msg (length qgis_files)) w)"

text \<open>
  In \<open>download\<close> the handler of \<open>except (URLError, ValueError)\<close> is \<open>download_failed\<close>;
  an exception of any other class leaves the method as it is raised. \<open>open_project\<close>
  is called inside the \<open>try\<close>; in this model it raises nothing.
\<close>

definition download_failed_msg :: "string \<Rightarrow> string" where
  "download_failed_msg pn =
     ''Failed to download your project '' @ pn @ ''.'' @ [CHR 0x0A]
       @ ''Please make sure your Mergin settings are correct''"

definition download_done_msg :: "string \<Rightarrow> string" where
  "download_done_msg pn =
     ''Your project '' @ pn @ '' has been successfully downloaded. ''
       @ ''Do you want to open project file?''"

definition download_failed :: "MerginProjectItem \<Rightarrow> world \<Rightarrow> world" where
  "download_failed self w =
     (let w1 = restoreOverrideCursor w;
          msg = download_failed_msg (project_name self)
      in QMessageBox_critical ''Project download'' msg w1)"

definition download ::
  "env \<Rightarrow> MerginProjectItem \<Rightarrow> world \<Rightarrow> (exn + unit) \<times> MerginProjectItem \<times> world" where
  "download e self w =
     (let parent_dir = getExistingDirectory e in
      if parent_dir = [] then (Inr (), self, w)
      else
        let target_dir = os_path_join parent_dir (project_name self);
            (u, w1) = settings_value ''Mergin/URL'' ''https://public.cloudmergin.com'' w;
            (n, w2) = settings_value ''Mergin/username'' [] w1;
            (p, w3) = settings_value ''Mergin/password'' [] w2;
            mc = \<lparr>url = u, username = n, password = p\<rparr>;
            w4 = setOverrideCursor WaitCursor w3;
            (r, w5) = call_download_project e mc (project_name self) target_dir w4
        in case r of
             Inr _ \<Rightarrow>
               let w6 = settings_setValue (localProjects_key (project_name self)) target_dir w5;
                   self' = self\<lparr>path := Some target_dir, icon := FolderSolid\<rparr>;
                   w7 = restoreOverrideCursor w6;
                   msg = download_done_msg (project_name self);
                   (btn_reply, w8) = QMessageBox_question e ''Project download'' msg w7
               in if btn_reply = Yes then (Inr (), self', open_project e self' w8)
                  else (Inr (), self', w8)
           | Inl (URLError m) \<Rightarrow> (Inr (), self, download_failed self w5)
           | Inl (ValueError m) \<Rightarrow> (Inr (), self, download_failed self w5)
           | Inl (OtherException m) \<Rightarrow> (Inl (OtherException m), self, w5))"

definition remove_local_msg :: string where
  "remove_local_msg =
     ''Your local changes will be lost. Make sure your project is synchronised with server. ''
       @ [CHR 0x0A, CHR 0x0A] @ ''Do you want to proceed?''"

definition remove_local_project ::
  "env \<Rightarrow> MerginProjectItem \<Rightarrow> world \<Rightarrow> (exn + unit) \<times> MerginProjectItem \<times> world" where
  "remove_local_project e self w =
     (if \<not> truthy (path self) then (Inr (), self, w)
      else
        let msg = remove_local_msg;
            (btn_reply, w1) = QMessageBox_question e ''Remove local project'' msg w
        in if btn_reply = No then (Inr (), self, w1)
           else
             let (r, w2) = (if os_path_exists (filesystem w1) (path_string (path self))
                            then call_rmtree e (path_string (path self)) w1
                            else (Inr (), w1))
             in case r of
                  Inl x \<Rightarrow> (Inl x, self, w2)
                | Inr _ \<Rightarrow>
                    let w3 = settings_remove (localProjects_key (project_name self)) w2
                    in (Inr (), self\<lparr>path := None, icon := CloudSolid\<rparr>, w3))"

definition action_download :: QAction where
  "action_download =
     \<lparr>action_icon = Some CloudDownloadAltSolid, action_text = ''Download'',
      triggered = slot_download\<rparr>"

definition action_remove_local :: QAction where
  "action_remove_local =
     \<lparr>action_icon = Some TrashSolid, action_text = ''Remove locally'',
      triggered = slot_remove_local_project\<rparr>"

definition action_open_project :: QAction where
  "action_open_project =
     \<lparr>action_icon = None, action_text = ''Open QGIS project'',
      triggered = slot_open_project\<rparr>"

definition actions :: "MerginProjectItem \<Rightarrow> QAction list" where
  "actions self =
     (if truthy (path self) then [action_open_project, action_remove_local]
      else [action_download])"

subsection \<open>MerginRootItem and DataItemProvider\<close>

definition MerginRootItem_init :: data_item where
  "MerginRootItem_init = RootItem ''Mergin'' ''/Mergin'' IconPng"

text \<open>The loop of \<open>createChildren\<close>: one item per project, appended in order.\<close>

fun create_items :: "project list \<Rightarrow> data_item list \<Rightarrow> world \<Rightarrow> data_item list \<times> world" where
  "create_items [] items w = (items, w)"
| "create_items (pr # prs) items w =
     (let (item, w1) = MerginProjectItem_init (name pr) w
      in create_items prs (items @ [ProjectItem (item\<lparr>state := Populated\<rparr>)]) w1)"

definition createChildren :: "env \<Rightarrow> world \<Rightarrow> data_item list \<times> world" where
  "createChildren e w =
     (let (u, w1) = settings_value ''Mergin/URL'' ''https://public.cloudmergin.com'' w;
          (n, w2) = settings_value ''Mergin/username'' [] w1;
          (p, w3) = settings_value ''Mergin/password'' [] w2;
          (ok, w4) = call_auth_ok e u n p w3
      in if \<not> ok
         then ([QgsErrorItem ''Failed to get projects from server'' ''/Mergin/error''], w4)
         else
           let mc = \<lparr>url = u, username = n, password = p\<rparr>;
               (r, w5) = call_projects_list e mc [''valid_qgis''] w4
           in case r of
                Inl (URLError m) \<Rightarrow>
                  ([QgsErrorItem ''Failed to get projects from server'' ''/Mergin/error''], w5)
              | Inl err \<Rightarrow>
                  ([QgsErrorItem (''Error: '' @ str err) ''/Mergin/error''], w5)
              | Inr projects \<Rightarrow> create_items projects [] w5)"

definition createDataItem :: "string \<Rightarrow> data_item option \<Rightarrow> data_item option" where
  "createDataItem pth parentItem =
     (if parentItem = None then Some MerginRootItem_init else None)"

subsection \<open>Vocabulary of the properties\<close>

text \<open>
  The definitions of this subsection are not part of the plugin: they read a trace, or
  name a value that the properties below speak about.

  What an operation added to the trace of the world it started from:
\<close>

definition new_events :: "world \<Rightarrow> world \<Rightarrow> event list" where
  "new_events w w' = drop (length (trace w)) (trace w')"

fun settings_key :: "event \<Rightarrow> string option" where
  "settings_key (SettingsValue k) = Some k"
| "settings_key (SettingsSetValue k v) = Some k"
| "settings_key (SettingsRemove k) = Some k"
| "settings_key ev = None"

definition settings_keys :: "event list \<Rightarrow> string set" where
  "settings_keys evs = set (List.map_filter settings_key evs)"

fun client_of :: "event \<Rightarrow> MerginClient option" where
  "client_of (AuthOk u n p) = Some \<lparr>url = u, username = n, password = p\<rparr>"
| "client_of (ProjectsList mc tags) = Some mc"
| "client_of (DownloadProject mc pn dir) = Some mc"
| "client_of ev = None"

definition clients_used :: "event list \<Rightarrow> MerginClient list" where
  "clients_used evs = List.map_filter client_of evs"

fun is_download :: "event \<Rightarrow> bool" where
  "is_download (DownloadProject mc pn dir) = True"
| "is_download ev = False"

fun is_box :: "event \<Rightarrow> bool" where
  "is_box (MessageBox b t m) = True"
| "is_box ev = False"

fun is_read :: "event \<Rightarrow> bool" where
  "is_read (ProjectRead f) = True"
| "is_read ev = False"


text \<open>
  The client that the connection settings of a world describe. It is used to name the
  arguments of a client call in a hypothesis; that the operations call the client with
  these arguments is proved of each of them.
\<close>

definition configured_client :: "world \<Rightarrow> MerginClient" where
  "configured_client w =
     \<lparr>url = fst (settings_value ''Mergin/URL'' ''https://public.cloudmergin.com'' w),
      username = fst (settings_value ''Mergin/username'' [] w),
      password = fst (settings_value ''Mergin/password'' [] w)\<rparr>"

definition project_name_of :: "data_item \<Rightarrow> string option" where
  "project_name_of it = (case it of ProjectItem x \<Rightarrow> Some (project_name x) | _ \<Rightarrow> None)"

text \<open>The item that the loop of \<open>createChildren\<close> makes for one project.\<close>

definition child_of :: "world \<Rightarrow> project \<Rightarrow> data_item" where
  "child_of w pr =
     ProjectItem ((fst (MerginProjectItem_init (name pr) w))\<lparr>state := Populated\<rparr>)"

text \<open>The error node that \<open>createChildren\<close> makes in two of its branches.\<close>

definition failed_item :: data_item where
  "failed_item = QgsErrorItem ''Failed to get projects from server'' ''/Mergin/error''"

fun is_URLError :: "exn \<Rightarrow> bool" where
  "is_URLError (URLError m) = True"
| "is_URLError err = False"

text \<open>The exception classes that \<open>except (URLError, ValueError)\<close> names.\<close>

fun is_URLError_or_ValueError :: "exn \<Rightarrow> bool" where
  "is_URLError_or_ValueError (URLError m) = True"
| "is_URLError_or_ValueError (ValueError m) = True"
| "is_URLError_or_ValueError (OtherException m) = False"

text \<open>
  The directory a download goes to, what the client answers there, the events with which
  every download that reaches the client begins, and the events of \<open>open_project\<close>
  on a given filesystem.
\<close>

definition target_dir_of :: "env \<Rightarrow> MerginProjectItem \<Rightarrow> string" where
  "target_dir_of e self = os_path_join (getExistingDirectory e) (project_name self)"

definition download_result :: "env \<Rightarrow> MerginProjectItem \<Rightarrow> world \<Rightarrow> exn + unit" where
  "download_result e self w =
     fst (download_project e (configured_client w) (project_name self) (target_dir_of e self)
            (filesystem w))"

definition download_prefix :: "env \<Rightarrow> MerginProjectItem \<Rightarrow> world \<Rightarrow> event list" where
  "download_prefix e self w =
     [SettingsValue ''Mergin/URL'', SettingsValue ''Mergin/username'',
      SettingsValue ''Mergin/password'', SetOverrideCursor WaitCursor,
      DownloadProject (configured_client w) (project_name self) (target_dir_of e self)]"

definition open_events :: "env \<Rightarrow> MerginProjectItem \<Rightarrow> filesystem \<Rightarrow> event list" where
  "open_events e self fs =
     trace (open_project e self
              \<lparr>settings = Map.empty, filesystem = fs, override_cursors = [], trace = []\<rparr>)"

fun is_cursor :: "event \<Rightarrow> bool" where
  "is_cursor (SetOverrideCursor c) = True"
| "is_cursor RestoreOverrideCursor = True"
| "is_cursor ev = False"

text \<open>
  An item and the settings agree: the icon shows whether the item has a local path; the
  item has a local path exactly when the settings hold one for its project; and then the
  two are the same.
\<close>

definition consistent :: "MerginProjectItem \<Rightarrow> world \<Rightarrow> bool" where
  "consistent self w =
     (icon self = (if truthy (path self) then FolderSolid else CloudSolid)
      \<and> truthy (settings w (localProjects_key (project_name self))) = truthy (path self)
      \<and> (truthy (path self) \<longrightarrow>
           settings w (localProjects_key (project_name self)) = path self))"

text \<open>
  \<open>remove_local_project\<close> ran to its end: the item had a local path, the user did not
  answer \<open>No\<close>, and nothing was raised.
\<close>

definition remove_completed :: "env \<Rightarrow> MerginProjectItem \<Rightarrow> world \<Rightarrow> bool" where
  "remove_completed e self w =
     (truthy (path self) \<and> question e ''Remove local project'' remove_local_msg \<noteq> No
      \<and> fst (remove_local_project e self w) = Inr ())"


subsection \<open>Concrete worlds and environments\<close>

definition w0 :: world where
  "w0 = \<lparr>settings = Map.empty, filesystem = Map.empty, override_cursors = [], trace = []\<rparr>"

text \<open>A world where project \<open>a\<close> was downloaded to a directory that still exists.\<close>

definition w_local :: world where
  "w_local =
     \<lparr>settings = [''Mergin/localProjects/a/path'' \<mapsto> ''/home/u/a''],
      filesystem = [''/home/u/a'' \<mapsto> Dir],
      override_cursors = [], trace = []\<rparr>"

text \<open>The same setting, with the directory gone, and with a regular file in its place.\<close>

definition w_stale :: world where
  "w_stale = w_local\<lparr>filesystem := Map.empty\<rparr>"

definition w_file :: world where
  "w_file = w_local\<lparr>filesystem := [''/home/u/a'' \<mapsto> File]\<rparr>"

text \<open>
  An environment in which everything succeeds: the user picks \<open>/home/u\<close>, answers
  \<open>Yes\<close>, the server lists two projects, a download creates the target directory with
  one project file in it.
\<close>

definition env0 :: env where
  "env0 =
     \<lparr>getExistingDirectory = ''/home/u'',
      question = (\<lambda>title msg. Yes),
      auth_ok = (\<lambda>u n p. True),
      projects_list = (\<lambda>mc tags. Inr [\<lparr>name = ''a''\<rparr>, \<lparr>name = ''b''\<rparr>]),
      download_project = (\<lambda>mc pn dir fs. (Inr (), fs(dir \<mapsto> Dir))),
      find_qgis_files = (\<lambda>fs p. if fs p = Some Dir then [p @ ''/a.qgs''] else []),
      rmtree = (\<lambda>fs p. (Inr (), fs(p := None)))\<rparr>"

text \<open>The three ways in which listing the projects fails.\<close>

definition env_auth_failure :: env where
  "env_auth_failure = env0\<lparr>auth_ok := (\<lambda>u n p. False)\<rparr>"

definition env_network_failure :: env where
  "env_network_failure = env0\<lparr>projects_list := (\<lambda>mc tags. Inl (URLError ''timed out''))\<rparr>"

definition env_unexpected :: env where
  "env_unexpected = env0\<lparr>projects_list := (\<lambda>mc tags. Inl (OtherException ''boom''))\<rparr>"

text \<open>Downloads that fail: with a \<open>URLError\<close>, and with an \<open>OSError\<close> of the filesystem.\<close>

definition env_download_refused :: env where
  "env_download_refused =
     env0\<lparr>download_project := (\<lambda>mc pn dir fs. (Inl (URLError ''connection refused''), fs))\<rparr>"

definition env_download_denied :: env where
  "env_download_denied =
     env0\<lparr>download_project := (\<lambda>mc pn dir fs. (Inl (OtherException ''Permission denied''), fs))\<rparr>"


definition env_strict :: env where
  "env_strict =
     env0\<lparr>rmtree := (\<lambda>fs p. if fs p = Some Dir then (Inr (), fs(p := None))
                           else (Inl (OtherException ''Not a directory''), fs))\<rparr>"

definition item_remote :: MerginProjectItem where
  "item_remote =
     \<lparr>project_name = ''a'', item_path = ''/Mergin/a'', path = None, icon = CloudSolid,
      state = Populated\<rparr>"

definition item_local :: MerginProjectItem where
  "item_local =
     \<lparr>project_name = ''a'', item_path = ''/Mergin/a'', path = Some ''/home/u/a'',
      icon = FolderSolid, state = Populated\<rparr>"

section \<open>Properties\<close>

subsection \<open>Auxiliary facts\<close>

lemmas prims = emit_def settings_value_def settings_value_None_def settings_setValue_def
  settings_remove_def setOverrideCursor_def restoreOverrideCursor_def QMessageBox_question_def
  QMessageBox_critical_def QMessageBox_warning_def QgsProject_read_def call_auth_ok_def
  call_projects_list_def call_download_project_def call_rmtree_def

lemma new_events_append [simp]: "trace w' = trace w @ evs \<Longrightarrow> new_events w w' = evs"
  by (simp add: new_events_def)

lemma new_events_same [simp]: "new_events w w = []"
  by (simp add: new_events_def)

text \<open>Constructing an item reads one setting and changes nothing.\<close>

lemma init_world:
  "settings (snd (MerginProjectItem_init pn w)) = settings w"
  "filesystem (snd (MerginProjectItem_init pn w)) = filesystem w"
  "override_cursors (snd (MerginProjectItem_init pn w)) = override_cursors w"
  "trace (snd (MerginProjectItem_init pn w)) = trace w @ [SettingsValue (localProjects_key pn)]"
  by (simp_all add: MerginProjectItem_init_def prims Let_def)

lemma init_cong:
  "settings w = settings w' \<Longrightarrow> filesystem w = filesystem w' \<Longrightarrow>
   fst (MerginProjectItem_init pn w) = fst (MerginProjectItem_init pn w')"
  by (simp add: MerginProjectItem_init_def prims Let_def)

lemma child_of_cong:
  "settings w = settings w' \<Longrightarrow> filesystem w = filesystem w' \<Longrightarrow> child_of w = child_of w'"
  by (rule ext) (simp add: child_of_def init_cong [of w w'])

lemma project_name_of_child [simp]: "project_name_of (child_of w pr) = Some (name pr)"
  by (simp add: project_name_of_def child_of_def MerginProjectItem_init_def Let_def split_def)

text \<open>The loop: by induction on the projects, for any items collected so far.\<close>

lemma create_items_world:
  "settings (snd (create_items prs items w)) = settings w
   \<and> filesystem (snd (create_items prs items w)) = filesystem w
   \<and> override_cursors (snd (create_items prs items w)) = override_cursors w
   \<and> trace (snd (create_items prs items w)) =
       trace w @ map (\<lambda>pr. SettingsValue (localProjects_key (name pr))) prs"
proof (induction prs arbitrary: items w)
  case Nil
  show ?case by simp
next
  case (Cons pr prs)
  show ?case
    by (simp add: split_def Let_def Cons.IH init_world)
qed

lemma create_items_items:
  "fst (create_items prs items w) = items @ map (child_of w) prs"
proof (induction prs arbitrary: items w)
  case Nil
  show ?case by simp
next
  case (Cons pr prs)
  have "child_of (snd (MerginProjectItem_init (name pr) w)) = child_of w"
    by (rule child_of_cong) (simp_all add: init_world)
  moreover have "ProjectItem ((fst (MerginProjectItem_init (name pr) w))\<lparr>state := Populated\<rparr>)
      = child_of w pr"
    by (simp add: child_of_def)
  ultimately show ?case
    by (simp add: split_def Let_def Cons.IH)
qed

lemma createChildren_cases:
  "fst (createChildren e w) =
     (let mc = configured_client w in
      if \<not> auth_ok e (url mc) (username mc) (password mc) then [failed_item]
      else case projects_list e mc [''valid_qgis''] of
             Inl (URLError m) \<Rightarrow> [failed_item]
           | Inl (ValueError m) \<Rightarrow> [QgsErrorItem (''Error: '' @ m) ''/Mergin/error'']
           | Inl (OtherException m) \<Rightarrow> [QgsErrorItem (''Error: '' @ m) ''/Mergin/error'']
           | Inr prs \<Rightarrow> map (child_of w) prs)"
  by (simp add: createChildren_def configured_client_def prims Let_def split_def failed_item_def
        create_items_items child_of_cong [of "_\<lparr>trace := _\<rparr>" w]
      split: sum.splits exn.splits)

text \<open>The branches of \<open>download\<close>, one lemma for each.\<close>

lemma os_path_join_nonempty: "a \<noteq> [] \<Longrightarrow> os_path_join a b \<noteq> []"
  by (simp add: os_path_join_def)

lemma open_project_world:
  "settings (open_project e self w) = settings w"
  "filesystem (open_project e self w) = filesystem w"
  "override_cursors (open_project e self w) = override_cursors w"
  by (simp_all add: open_project_def Let_def prims)

lemma open_project_trace:
  "trace (open_project e self w) = trace w @ open_events e self (filesystem w)"
  by (simp add: open_events_def open_project_def Let_def prims)

lemma settings_keys_append [simp]:
  "settings_keys (xs @ ys) = settings_keys xs \<union> settings_keys ys"
  by (simp add: settings_keys_def List.map_filter_def)

lemma settings_keys_Cons [simp]:
  "settings_keys (ev # evs) =
     (case settings_key ev of None \<Rightarrow> settings_keys evs | Some k \<Rightarrow> insert k (settings_keys evs))"
  by (simp add: settings_keys_def split: option.splits)

lemma settings_keys_Nil [simp]: "settings_keys [] = {}"
  by (simp add: settings_keys_def)

lemma clients_used_append [simp]:
  "clients_used (xs @ ys) = clients_used xs @ clients_used ys"
  by (simp add: clients_used_def List.map_filter_def)

lemma clients_used_Cons [simp]:
  "clients_used (ev # evs) =
     (case client_of ev of None \<Rightarrow> clients_used evs | Some c \<Rightarrow> c # clients_used evs)"
  by (simp add: clients_used_def split: option.splits)

lemma clients_used_Nil [simp]: "clients_used [] = []"
  by (simp add: clients_used_def)

lemma open_events_plain [simp]:
  "settings_keys (open_events e self fs) = {}"
  "clients_used (open_events e self fs) = []"
  "filter is_download (open_events e self fs) = []"
  by (simp_all add: open_events_def open_project_def Let_def prims)


lemma download_caught:
  assumes "getExistingDirectory e \<noteq> []"
    and "download_result e self w = Inl err"
    and "is_URLError_or_ValueError err"
  shows "fst (download e self w) = Inr ()"
    and "fst (snd (download e self w)) = self"
    and "settings (snd (snd (download e self w))) = settings w"
    and "override_cursors (snd (snd (download e self w))) = override_cursors w"
    and "new_events w (snd (snd (download e self w))) =
          download_prefix e self w @
          [RestoreOverrideCursor,
           MessageBox Critical ''Project download'' (download_failed_msg (project_name self))]"
  using assms
  by (cases err; simp add: download_def download_result_def target_dir_of_def download_prefix_def
        configured_client_def download_failed_def prims Let_def split_def)+

lemma download_uncaught:
  assumes "getExistingDirectory e \<noteq> []"
    and "download_result e self w = Inl err"
    and "\<not> is_URLError_or_ValueError err"
  shows "fst (download e self w) = Inl err"
    and "fst (snd (download e self w)) = self"
    and "settings (snd (snd (download e self w))) = settings w"
    and "override_cursors (snd (snd (download e self w))) = WaitCursor # override_cursors w"
    and "new_events w (snd (snd (download e self w))) = download_prefix e self w"
  using assms
  by (cases err; simp add: download_def download_result_def target_dir_of_def download_prefix_def
        configured_client_def download_failed_def prims Let_def split_def)+

lemma download_returned:
  assumes "getExistingDirectory e \<noteq> []"
    and "download_result e self w = Inr ()"
  shows "fst (download e self w) = Inr ()"
    and "fst (snd (download e self w)) = self\<lparr>path := Some (target_dir_of e self), icon := FolderSolid\<rparr>"
    and "settings (snd (snd (download e self w))) =
           (settings w)(localProjects_key (project_name self) \<mapsto> target_dir_of e self)"
    and "override_cursors (snd (snd (download e self w))) = override_cursors w"
    and "new_events w (snd (snd (download e self w))) =
          download_prefix e self w @
          [SettingsSetValue (localProjects_key (project_name self)) (target_dir_of e self),
           RestoreOverrideCursor,
           MessageBox Question ''Project download'' (download_done_msg (project_name self))]
          @ (if question e ''Project download'' (download_done_msg (project_name self)) = Yes
             then open_events e (self\<lparr>path := Some (target_dir_of e self), icon := FolderSolid\<rparr>)
                    (snd (download_project e (configured_client w) (project_name self)
                            (target_dir_of e self) (filesystem w)))
             else [])"
  using assms
  by (simp_all add: download_def download_result_def target_dir_of_def download_prefix_def
        configured_client_def prims Let_def split_def open_project_world open_project_trace)

text \<open>\<open>remove_local_project\<close> and the constructor.\<close>

lemma truthy_simps [simp]: "truthy None = False" "truthy (Some s) = (s \<noteq> [])"
  by (simp_all add: truthy_def)

lemma truthy_path_string: "truthy p \<Longrightarrow> Some (path_string p) = p"
  by (cases p) (simp_all add: truthy_def)

lemma remove_local_completed:
  assumes "remove_completed e self w"
  shows "fst (snd (remove_local_project e self w)) = self\<lparr>path := None, icon := CloudSolid\<rparr>"
    and "settings (snd (snd (remove_local_project e self w))) k =
           (if sub_setting (localProjects_key (project_name self)) k then None
            else settings w k)"
  using assms
  by (simp_all add: remove_completed_def remove_local_project_def prims Let_def split_def
      split: if_splits sum.splits)



lemma sub_setting_self [simp]: "sub_setting key key"
  by (simp add: sub_setting_def)

text \<open>The constructor leaves item and settings in agreement unless the setting is stale.\<close>

lemma init_consistent:
  "consistent (fst (MerginProjectItem_init pn w)) (snd (MerginProjectItem_init pn w))
     = (truthy (settings w (localProjects_key pn)) \<longrightarrow>
          os_path_exists (filesystem w) (path_string (settings w (localProjects_key pn))))"
  by (auto simp add: consistent_def MerginProjectItem_init_def prims Let_def truthy_path_string)

lemma init_path:
  "path (fst (MerginProjectItem_init pn w)) =
     (if truthy (settings w (localProjects_key pn))
         \<and> \<not> os_path_exists (filesystem w) (path_string (settings w (localProjects_key pn)))
      then None else settings w (localProjects_key pn))"
  "icon (fst (MerginProjectItem_init pn w)) =
     (if truthy (path (fst (MerginProjectItem_init pn w))) then FolderSolid else CloudSolid)"
  "project_name (fst (MerginProjectItem_init pn w)) = pn"
  by (simp_all add: MerginProjectItem_init_def prims Let_def)


lemma createChildren_trace:
  "new_events w (snd (createChildren e w)) =
     [SettingsValue ''Mergin/URL'', SettingsValue ''Mergin/username'',
      SettingsValue ''Mergin/password'',
      AuthOk (url (configured_client w)) (username (configured_client w))
        (password (configured_client w))]
     @ (if \<not> auth_ok e (url (configured_client w)) (username (configured_client w))
              (password (configured_client w)) then []
        else ProjectsList (configured_client w) [''valid_qgis'']
             # (case projects_list e (configured_client w) [''valid_qgis''] of
                  Inl err \<Rightarrow> []
                | Inr prs \<Rightarrow> map (\<lambda>pr. SettingsValue (localProjects_key (name pr))) prs))"
  by (simp add: createChildren_def configured_client_def prims Let_def split_def
        create_items_world
      split: sum.splits exn.splits)


lemma clients_used_map_SettingsValue:
  "clients_used (map (\<lambda>pr. SettingsValue (localProjects_key (name pr))) prs) = []"
  by (induction prs) auto


lemma createChildren_clients:
  "set (clients_used (new_events w (snd (createChildren e w)))) = {configured_client w}"
  by (simp add: createChildren_trace clients_used_map_SettingsValue split: sum.splits)

lemma download_clients:
  "getExistingDirectory e \<noteq> [] \<Longrightarrow>
   clients_used (new_events w (snd (snd (download e self w)))) = [configured_client w]"
proof (cases "download_result e self w")
  case (Inl err)
  assume "getExistingDirectory e \<noteq> []"
  with Inl show ?thesis
    by (cases "is_URLError_or_ValueError err")
       (simp_all add: download_caught download_uncaught download_prefix_def)
next
  case (Inr u)
  assume "getExistingDirectory e \<noteq> []"
  with Inr show ?thesis
    by (simp add: download_returned download_prefix_def)
qed



lemma configured_client_defaults:
  "settings w ''Mergin/URL'' = None \<Longrightarrow> url (configured_client w) = ''https://public.cloudmergin.com''"
  "settings w ''Mergin/username'' = None \<Longrightarrow> username (configured_client w) = []"
  "settings w ''Mergin/password'' = None \<Longrightarrow> password (configured_client w) = []"
  by (simp_all add: configured_client_def prims)

subsection \<open>The provider\<close>

text \<open>
  C6. \<open>createDataItem\<close> returns the Mergin root item when it is called without a parent
  item, and no item when it is called with one; so it returns an item exactly for a
  top-level request.
\<close>

theorem createDataItem_top_level_only:
  "createDataItem pth None = Some MerginRootItem_init
   \<and> createDataItem pth (Some parent) = None
   \<and> (createDataItem pth parentItem \<noteq> None) = (parentItem = None)"
  by (simp add: createDataItem_def)

subsection \<open>The root item\<close>

text \<open>
  C1, as stated: each of the three kinds of failure of an expansion (authentication,
  network, any other exception) gives an error node of its own. It fails: a refused
  authentication and a \<open>URLError\<close> of the listing give the same node.
\<close>

theorem createChildren_distinct_errors_counterexample:
  "\<not> auth_ok env_auth_failure (url (configured_client w0)) (username (configured_client w0))
        (password (configured_client w0))
   \<and> auth_ok env_network_failure (url (configured_client w0)) (username (configured_client w0))
        (password (configured_client w0))
   \<and> projects_list env_network_failure (configured_client w0) [''valid_qgis'']
       = Inl (URLError ''timed out'')
   \<and> fst (createChildren env_auth_failure w0) = fst (createChildren env_network_failure w0)"
  by (simp add: createChildren_cases env_auth_failure_def env_network_failure_def env0_def Let_def)

text \<open>
  C1, amended: an expansion of the root item returns, when authentication and listing
  succeed, exactly one project item per listed project, in the order of the listing, each
  for the name of its project; on any failure it returns exactly one error node. A refused
  authentication and a network failure (\<open>URLError\<close>) of the listing give the same node,
  \<open>Failed to get projects from server\<close>; any other exception gives a different node, which
  shows the message of the exception after \<open>Error: \<close>.
\<close>

theorem createChildren_children:
  "(\<not> auth_ok e (url (configured_client w)) (username (configured_client w))
          (password (configured_client w)) \<longrightarrow>
      fst (createChildren e w) = [failed_item])
   \<and> (auth_ok e (url (configured_client w)) (username (configured_client w))
          (password (configured_client w)) \<longrightarrow>
      (case projects_list e (configured_client w) [''valid_qgis''] of
         Inl err \<Rightarrow>
           if is_URLError err then fst (createChildren e w) = [failed_item]
           else fst (createChildren e w) = [QgsErrorItem (''Error: '' @ str err) ''/Mergin/error'']
                \<and> fst (createChildren e w) \<noteq> [failed_item]
       | Inr prs \<Rightarrow>
           fst (createChildren e w) = map (child_of w) prs
           \<and> length (fst (createChildren e w)) = length prs
           \<and> map project_name_of (fst (createChildren e w)) = map (\<lambda>pr. Some (name pr)) prs))"
  by (simp add: createChildren_cases Let_def failed_item_def comp_def split: sum.splits exn.splits)

theorem createChildren_children_witness:
  "\<not> auth_ok env_auth_failure (url (configured_client w0)) (username (configured_client w0))
        (password (configured_client w0))
   \<and> fst (createChildren env_auth_failure w0) = [failed_item]
   \<and> projects_list env_network_failure (configured_client w0) [''valid_qgis'']
       = Inl (URLError ''timed out'')
   \<and> fst (createChildren env_network_failure w0) = [failed_item]
   \<and> projects_list env_unexpected (configured_client w0) [''valid_qgis'']
       = Inl (OtherException ''boom'')
   \<and> fst (createChildren env_unexpected w0) = [QgsErrorItem ''Error: boom'' ''/Mergin/error'']
   \<and> projects_list env0 (configured_client w0) [''valid_qgis'']
       = Inr [\<lparr>name = ''a''\<rparr>, \<lparr>name = ''b''\<rparr>]
   \<and> map project_name_of (fst (createChildren env0 w0)) = [Some ''a'', Some ''b'']"
  using createChildren_children [of env_auth_failure w0]
    createChildren_children [of env_network_failure w0]
    createChildren_children [of env_unexpected w0]
    createChildren_children [of env0 w0]
  by (simp add: env_auth_failure_def env_network_failure_def env_unexpected_def env0_def)

subsection \<open>The project item\<close>

text \<open>
  C4, as stated: the action list of every project item holds the three actions download,
  remove-local and open, whether or not the item has a local path. It fails for an item
  without a local path, whose list holds the download action alone.
\<close>

theorem actions_all_three_counterexample:
  "path item_remote = None
   \<and> set (map triggered (actions item_remote))
       \<noteq> {slot_download, slot_remove_local_project, slot_open_project}"
  by (simp add: item_remote_def actions_def truthy_def action_download_def)

text \<open>
  C4, amended: the action list depends on the local path. An item with a local path offers
  open and remove-local, in this order, and not download; an item without one offers
  download alone.
\<close>

theorem actions_by_local_path:
  "(truthy (path self) \<longrightarrow>
      map triggered (actions self) = [slot_open_project, slot_remove_local_project])
   \<and> (\<not> truthy (path self) \<longrightarrow> map triggered (actions self) = [slot_download])"
  by (simp add: actions_def action_download_def action_remove_local_def action_open_project_def)

theorem actions_by_local_path_witness:
  "truthy (path item_local) \<and> \<not> truthy (path item_remote)
   \<and> map triggered (actions item_local) = [slot_open_project, slot_remove_local_project]
   \<and> map triggered (actions item_remote) = [slot_download]"
  using actions_by_local_path [of item_local] actions_by_local_path [of item_remote]
  by (simp add: item_local_def item_remote_def truthy_def)

text \<open>
  C8. \<open>open_project\<close> does nothing for an item without a local path. For an item with
  one, it loads the file when \<open>find_qgis_files\<close> returns exactly one, and otherwise shows
  a warning that tells the number of files found, and loads nothing. So a project file is
  loaded if and only if the item has a local path and exactly one file is found.
\<close>

theorem open_project_loads_single_file:
  "(\<not> truthy (path self) \<longrightarrow> open_project e self w = w)
   \<and> (truthy (path self) \<longrightarrow>
        find_qgis_files e (filesystem w) (path_string (path self)) = [f] \<longrightarrow>
        new_events w (open_project e self w) = [ProjectRead f])
   \<and> (truthy (path self) \<longrightarrow>
        length (find_qgis_files e (filesystem w) (path_string (path self))) \<noteq> 1 \<longrightarrow>
        new_events w (open_project e self w) =
          [MessageBox Warning ''Load QGIS project''
             (open_project_msg
                (length (find_qgis_files e (filesystem w) (path_string (path self)))))])
   \<and> (filter is_read (new_events w (open_project e self w)) \<noteq> []) =
        (truthy (path self)
         \<and> length (find_qgis_files e (filesystem w) (path_string (path self))) = 1)"
  by (simp add: open_project_def Let_def prims)

theorem open_project_loads_single_file_witness:
  "\<not> truthy (path item_remote) \<and> open_project env0 item_remote w_local = w_local
   \<and> truthy (path item_local)
   \<and> find_qgis_files env0 (filesystem w_local) (path_string (path item_local))
       = [''/home/u/a/a.qgs'']
   \<and> new_events w_local (open_project env0 item_local w_local)
       = [ProjectRead ''/home/u/a/a.qgs'']
   \<and> length (find_qgis_files env0 (filesystem w_stale) (path_string (path item_local))) \<noteq> 1
   \<and> new_events w_stale (open_project env0 item_local w_stale) =
       [MessageBox Warning ''Load QGIS project''
          ''Plugin can only load project with single QGIS file but 0 found.'']"
  using open_project_loads_single_file [of item_remote env0 w_local]
    open_project_loads_single_file [of item_local env0 w_local "''/home/u/a/a.qgs''"]
    open_project_loads_single_file [of item_local env0 w_stale]
  by (simp add: item_remote_def item_local_def truthy_def env0_def w_local_def w_stale_def
        open_project_msg_def)

text \<open>
  Where nothing exists at the stored path, the constructor gives the item no local path:
  the path is \<open>None\<close> (or the empty string that the setting held), the icon is the cloud
  icon and the item offers the download action.
\<close>

lemma init_clears_missing_path:
  "settings w (localProjects_key pn) = Some p \<Longrightarrow> \<not> os_path_exists (filesystem w) p \<Longrightarrow>
   \<not> truthy (path (fst (MerginProjectItem_init pn w)))
   \<and> (p \<noteq> [] \<longrightarrow> path (fst (MerginProjectItem_init pn w)) = None)
   \<and> icon (fst (MerginProjectItem_init pn w)) = CloudSolid
   \<and> actions (fst (MerginProjectItem_init pn w)) = [action_download]"
  by (simp add: MerginProjectItem_init_def prims truthy_def actions_def Let_def)

text \<open>
  C2. When the setting \<open>Mergin/localProjects/<name>/path\<close> is present and does not point
  to an existing directory, the constructed item is to have no local path. The code misses
  this where the setting points to a regular file: \<open>os.path.exists\<close> holds of it, so the
  item keeps the path, gets the folder icon and offers open and remove-local; and removing
  it locally then fails in \<open>rmtree\<close>, which leaves the setting in place.
\<close>

theorem init_regular_file_keeps_path:
  "settings w_file (localProjects_key ''a'') = Some ''/home/u/a''
   \<and> filesystem w_file ''/home/u/a'' = Some File
   \<and> path (fst (MerginProjectItem_init ''a'' w_file)) = Some ''/home/u/a''
   \<and> icon (fst (MerginProjectItem_init ''a'' w_file)) = FolderSolid
   \<and> actions (fst (MerginProjectItem_init ''a'' w_file))
       = [action_open_project, action_remove_local]
   \<and> fst (remove_local_project env_strict (fst (MerginProjectItem_init ''a'' w_file))
             (snd (MerginProjectItem_init ''a'' w_file)))
       = Inl (OtherException ''Not a directory'')
   \<and> settings (snd (snd (remove_local_project env_strict
                             (fst (MerginProjectItem_init ''a'' w_file))
                             (snd (MerginProjectItem_init ''a'' w_file)))))
        (localProjects_key ''a'') = Some ''/home/u/a''"
  by (simp add: w_file_def w_local_def localProjects_key_def MerginProjectItem_init_def
        remove_local_project_def actions_def env_strict_def env0_def
        prims os_path_exists_def Let_def)

subsection \<open>Download\<close>

text \<open>
  C3, as stated: whenever the client's \<open>download_project\<close> call fails, a critical dialog
  is shown and the wait cursor is restored. It fails when the call raises an exception
  that is neither a \<open>URLError\<close> nor a \<open>ValueError\<close>, such as the \<open>OSError\<close> of a target
  directory that cannot be written: the exception leaves \<open>download\<close>, no dialog is shown
  and the wait cursor stays set.
\<close>

theorem download_failure_counterexample:
  "getExistingDirectory env_download_denied \<noteq> []
   \<and> download_result env_download_denied item_remote w0 = Inl (OtherException ''Permission denied'')
   \<and> filter is_box (new_events w0 (snd (snd (download env_download_denied item_remote w0)))) = []
   \<and> override_cursors w0 = []
   \<and> override_cursors (snd (snd (download env_download_denied item_remote w0))) = [WaitCursor]"
  by (simp add: download_def download_result_def target_dir_of_def configured_client_def
        env_download_denied_def env0_def item_remote_def w0_def prims Let_def os_path_join_def)

text \<open>
  C3, amended: whenever the client's \<open>download_project\<close> call raises \<open>URLError\<close> or
  \<open>ValueError\<close>, one critical dialog is shown, the wait cursor set before the call is
  restored, the client is called once and no more, and \<open>download\<close> returns normally.
\<close>

theorem download_failure_handled:
  "getExistingDirectory e \<noteq> [] \<Longrightarrow> download_result e self w = Inl err \<Longrightarrow>
   is_URLError_or_ValueError err \<Longrightarrow>
   filter is_box (new_events w (snd (snd (download e self w))))
     = [MessageBox Critical ''Project download'' (download_failed_msg (project_name self))]
   \<and> filter is_cursor (new_events w (snd (snd (download e self w))))
     = [SetOverrideCursor WaitCursor, RestoreOverrideCursor]
   \<and> override_cursors (snd (snd (download e self w))) = override_cursors w
   \<and> filter is_download (new_events w (snd (snd (download e self w))))
     = [DownloadProject (configured_client w) (project_name self) (target_dir_of e self)]
   \<and> fst (download e self w) = Inr ()"
  by (simp add: download_caught download_prefix_def)

theorem download_failure_handled_witness:
  "getExistingDirectory env_download_refused \<noteq> []
   \<and> download_result env_download_refused item_remote w0 = Inl (URLError ''connection refused'')
   \<and> is_URLError_or_ValueError (URLError ''connection refused'')
   \<and> filter is_box (new_events w0 (snd (snd (download env_download_refused item_remote w0))))
     = [MessageBox Critical ''Project download'' (download_failed_msg ''a'')]
   \<and> override_cursors (snd (snd (download env_download_refused item_remote w0))) = []
   \<and> length (filter is_download
        (new_events w0 (snd (snd (download env_download_refused item_remote w0))))) = 1"
proof -
  have d: "getExistingDirectory env_download_refused \<noteq> []"
    by (simp add: env_download_refused_def env0_def)
  have r: "download_result env_download_refused item_remote w0
             = Inl (URLError ''connection refused'')"
    by (simp add: download_result_def env_download_refused_def env0_def)
  have c: "is_URLError_or_ValueError (URLError ''connection refused'')"
    by simp
  show ?thesis
    using d r c download_failure_handled [OF d r c]
    by (simp add: item_remote_def w0_def)
qed

text \<open>
  C9. When the client's \<open>download_project\<close> call raises \<open>URLError\<close> or \<open>ValueError\<close>,
  the setting \<open>Mergin/localProjects/<name>/path\<close>, the path of the item and its icon are
  what they were before the download; indeed the whole settings store and the whole item
  are.
\<close>

theorem download_failure_atomic:
  "getExistingDirectory e \<noteq> [] \<Longrightarrow> download_result e self w = Inl err \<Longrightarrow>
   is_URLError_or_ValueError err \<Longrightarrow>
   settings (snd (snd (download e self w))) (localProjects_key (project_name self))
     = settings w (localProjects_key (project_name self))
   \<and> path (fst (snd (download e self w))) = path self
   \<and> icon (fst (snd (download e self w))) = icon self
   \<and> settings (snd (snd (download e self w))) = settings w
   \<and> fst (snd (download e self w)) = self"
  by (simp add: download_caught)

theorem download_failure_atomic_witness:
  "getExistingDirectory env_download_refused \<noteq> []
   \<and> download_result env_download_refused item_local w_local = Inl (URLError ''connection refused'')
   \<and> is_URLError_or_ValueError (URLError ''connection refused'')
   \<and> settings (snd (snd (download env_download_refused item_local w_local)))
        ''Mergin/localProjects/a/path'' = Some ''/home/u/a''
   \<and> path (fst (snd (download env_download_refused item_local w_local))) = Some ''/home/u/a''
   \<and> icon (fst (snd (download env_download_refused item_local w_local))) = FolderSolid"
proof -
  have d: "getExistingDirectory env_download_refused \<noteq> []"
    by (simp add: env_download_refused_def env0_def)
  have r: "download_result env_download_refused item_local w_local
             = Inl (URLError ''connection refused'')"
    by (simp add: download_result_def env_download_refused_def env0_def)
  have c: "is_URLError_or_ValueError (URLError ''connection refused'')"
    by simp
  show ?thesis
    using d r c download_failure_atomic [OF d r c]
    by (simp add: item_local_def w_local_def localProjects_key_def)
qed

text \<open>
  C5, as stated: every operation on a project item, construction included, keeps the icon
  and the persisted path consistent with the local path of the item. It fails for the
  construction of an item whose persisted path names nothing that exists: the item gets no
  local path, and the setting still holds one.
\<close>

theorem init_consistent_counterexample:
  "settings w_stale (localProjects_key ''a'') = Some ''/home/u/a''
   \<and> path (fst (MerginProjectItem_init ''a'' w_stale)) = None
   \<and> settings (snd (MerginProjectItem_init ''a'' w_stale)) (localProjects_key ''a'')
       = Some ''/home/u/a''
   \<and> \<not> consistent (fst (MerginProjectItem_init ''a'' w_stale))
         (snd (MerginProjectItem_init ''a'' w_stale))"
  by (simp add: w_stale_def w_local_def localProjects_key_def MerginProjectItem_init_def
        consistent_def prims os_path_exists_def Let_def)

text \<open>
  C5, amended: a successful download and a completed remove-local leave the icon and the
  persisted path consistent with the local path of the item. After a successful download
  (a directory was chosen and the client returned) the setting
  \<open>Mergin/localProjects/<name>/path\<close> and the path of the item hold the target directory
  and the icon is the folder icon; after a completed remove-local the setting is removed,
  the path is \<open>None\<close> and the icon is the cloud icon. Construction sets the icon by the
  local path of the item, and a local path of the item is the persisted one; it leaves
  item and setting consistent exactly when the persisted path, if there is one, exists:
  for a persisted path that does not exist the item gets no local path and the setting
  stays as it was.
\<close>

theorem item_operations_consistency:
  "(consistent (fst (MerginProjectItem_init pn w)) (snd (MerginProjectItem_init pn w))
      = (truthy (settings w (localProjects_key pn)) \<longrightarrow>
           os_path_exists (filesystem w) (path_string (settings w (localProjects_key pn)))))
   \<and> icon (fst (MerginProjectItem_init pn w))
       = (if truthy (path (fst (MerginProjectItem_init pn w))) then FolderSolid else CloudSolid)
   \<and> (truthy (path (fst (MerginProjectItem_init pn w))) \<longrightarrow>
        settings (snd (MerginProjectItem_init pn w)) (localProjects_key pn)
          = path (fst (MerginProjectItem_init pn w)))
   \<and> (truthy (settings w (localProjects_key pn)) \<longrightarrow>
        \<not> os_path_exists (filesystem w) (path_string (settings w (localProjects_key pn))) \<longrightarrow>
        path (fst (MerginProjectItem_init pn w)) = None
        \<and> settings (snd (MerginProjectItem_init pn w)) (localProjects_key pn)
            = settings w (localProjects_key pn))
   \<and> (getExistingDirectory e \<noteq> [] \<longrightarrow> download_result e self w = Inr () \<longrightarrow>
        settings (snd (snd (download e self w))) (localProjects_key (project_name self))
          = Some (target_dir_of e self)
        \<and> path (fst (snd (download e self w))) = Some (target_dir_of e self)
        \<and> icon (fst (snd (download e self w))) = FolderSolid
        \<and> consistent (fst (snd (download e self w))) (snd (snd (download e self w))))
   \<and> (remove_completed e self w \<longrightarrow>
        settings (snd (snd (remove_local_project e self w))) (localProjects_key (project_name self))
          = None
        \<and> path (fst (snd (remove_local_project e self w))) = None
        \<and> icon (fst (snd (remove_local_project e self w))) = CloudSolid
        \<and> consistent (fst (snd (remove_local_project e self w)))
             (snd (snd (remove_local_project e self w))))"
proof (intro conjI impI)
  show "consistent (fst (MerginProjectItem_init pn w)) (snd (MerginProjectItem_init pn w))
      = (truthy (settings w (localProjects_key pn)) \<longrightarrow>
           os_path_exists (filesystem w) (path_string (settings w (localProjects_key pn))))"
    by (rule init_consistent)
  show "icon (fst (MerginProjectItem_init pn w))
       = (if truthy (path (fst (MerginProjectItem_init pn w))) then FolderSolid else CloudSolid)"
    by (rule init_path)
next
  assume "truthy (path (fst (MerginProjectItem_init pn w)))"
  then show "settings (snd (MerginProjectItem_init pn w)) (localProjects_key pn)
          = path (fst (MerginProjectItem_init pn w))"
    by (simp add: init_world init_path split: if_splits)
next
  assume "truthy (settings w (localProjects_key pn))"
    and "\<not> os_path_exists (filesystem w) (path_string (settings w (localProjects_key pn)))"
  then show "path (fst (MerginProjectItem_init pn w)) = None"
    and "settings (snd (MerginProjectItem_init pn w)) (localProjects_key pn)
            = settings w (localProjects_key pn)"
    by (simp_all add: init_world init_path)
next
  assume "getExistingDirectory e \<noteq> []" and "download_result e self w = Inr ()"
  then show "settings (snd (snd (download e self w))) (localProjects_key (project_name self))
               = Some (target_dir_of e self)"
    and "path (fst (snd (download e self w))) = Some (target_dir_of e self)"
    and "icon (fst (snd (download e self w))) = FolderSolid"
    and "consistent (fst (snd (download e self w))) (snd (snd (download e self w)))"
    by (simp_all add: download_returned consistent_def target_dir_of_def os_path_join_nonempty)
next
  assume "remove_completed e self w"
  then show "settings (snd (snd (remove_local_project e self w)))
               (localProjects_key (project_name self)) = None"
    and "path (fst (snd (remove_local_project e self w))) = None"
    and "icon (fst (snd (remove_local_project e self w))) = CloudSolid"
    and "consistent (fst (snd (remove_local_project e self w)))
           (snd (snd (remove_local_project e self w)))"
    by (simp_all add: remove_local_completed consistent_def)
qed

theorem item_operations_consistency_witness:
  "consistent (fst (MerginProjectItem_init ''a'' w_local)) (snd (MerginProjectItem_init ''a'' w_local))
   \<and> path (fst (MerginProjectItem_init ''a'' w_local)) = Some ''/home/u/a''
   \<and> icon (fst (MerginProjectItem_init ''a'' w_local)) = FolderSolid
   \<and> truthy (settings w_stale (localProjects_key ''a''))
   \<and> \<not> os_path_exists (filesystem w_stale) (path_string (settings w_stale (localProjects_key ''a'')))
   \<and> path (fst (MerginProjectItem_init ''a'' w_stale)) = None
   \<and> icon (fst (MerginProjectItem_init ''a'' w_stale)) = CloudSolid
   \<and> settings (snd (MerginProjectItem_init ''a'' w_stale)) (localProjects_key ''a'')
       = Some ''/home/u/a''
   \<and> getExistingDirectory env0 \<noteq> [] \<and> download_result env0 item_remote w0 = Inr ()
   \<and> settings (snd (snd (download env0 item_remote w0))) ''Mergin/localProjects/a/path''
       = Some ''/home/u/a''
   \<and> path (fst (snd (download env0 item_remote w0))) = Some ''/home/u/a''
   \<and> icon (fst (snd (download env0 item_remote w0))) = FolderSolid
   \<and> consistent (fst (snd (download env0 item_remote w0))) (snd (snd (download env0 item_remote w0)))
   \<and> remove_completed env0 item_local w_local
   \<and> settings (snd (snd (remove_local_project env0 item_local w_local)))
        ''Mergin/localProjects/a/path'' = None
   \<and> path (fst (snd (remove_local_project env0 item_local w_local))) = None
   \<and> icon (fst (snd (remove_local_project env0 item_local w_local))) = CloudSolid
   \<and> consistent (fst (snd (remove_local_project env0 item_local w_local)))
        (snd (snd (remove_local_project env0 item_local w_local)))"
proof -
  have l: "settings w_local (localProjects_key ''a'') = Some ''/home/u/a''"
    "os_path_exists (filesystem w_local) ''/home/u/a''"
    by (simp_all add: w_local_def localProjects_key_def os_path_exists_def)
  have s: "settings w_stale (localProjects_key ''a'') = Some ''/home/u/a''"
    "\<not> os_path_exists (filesystem w_stale) ''/home/u/a''"
    by (simp_all add: w_stale_def w_local_def localProjects_key_def os_path_exists_def)
  have d: "getExistingDirectory env0 \<noteq> []"
    by (simp add: env0_def)
  have r: "download_result env0 item_remote w0 = Inr ()"
    by (simp add: download_result_def env0_def)
  have c: "remove_completed env0 item_local w_local"
    by (simp add: remove_completed_def remove_local_project_def env0_def item_local_def
          w_local_def prims Let_def os_path_exists_def)
  have t: "target_dir_of env0 item_remote = ''/home/u/a''"
    by (simp add: target_dir_of_def env0_def item_remote_def os_path_join_def)
  have n: "project_name item_remote = ''a''" "project_name item_local = ''a''"
    by (simp_all add: item_remote_def item_local_def)
  have k: "localProjects_key ''a'' = ''Mergin/localProjects/a/path''"
    by (simp add: localProjects_key_def)
  have p: "path (fst (MerginProjectItem_init ''a'' w_local)) = Some ''/home/u/a''"
    "path (fst (MerginProjectItem_init ''a'' w_stale)) = None"
    using l s by (simp_all add: init_path)
  show ?thesis
    using l s d r c t p item_operations_consistency [of "''a''" w_local env0 item_local]
      item_operations_consistency [of "''a''" w_stale env0 item_local]
      item_operations_consistency [of "''a''" w0 env0 item_remote]
    by (simp add: n k)
qed

text \<open>
  C10. When \<open>Mergin/URL\<close> is not set, the root expansion and the download both hand
  \<open>https://public.cloudmergin.com\<close> to the client, in every call they make; when
  \<open>Mergin/username\<close> or \<open>Mergin/password\<close> is not set, both hand it the empty string.
\<close>

theorem same_defaults_for_listing_and_download:
  "(settings w ''Mergin/URL'' = None \<longrightarrow>
      url ` set (clients_used (new_events w (snd (createChildren e w))))
        = {''https://public.cloudmergin.com''}
      \<and> (getExistingDirectory e \<noteq> [] \<longrightarrow>
           url ` set (clients_used (new_events w (snd (snd (download e self w)))))
             = {''https://public.cloudmergin.com''}))
   \<and> (settings w ''Mergin/username'' = None \<longrightarrow>
      username ` set (clients_used (new_events w (snd (createChildren e w)))) = {[]}
      \<and> (getExistingDirectory e \<noteq> [] \<longrightarrow>
           username ` set (clients_used (new_events w (snd (snd (download e self w))))) = {[]}))
   \<and> (settings w ''Mergin/password'' = None \<longrightarrow>
      password ` set (clients_used (new_events w (snd (createChildren e w)))) = {[]}
      \<and> (getExistingDirectory e \<noteq> [] \<longrightarrow>
           password ` set (clients_used (new_events w (snd (snd (download e self w))))) = {[]}))"
  by (simp add: createChildren_clients download_clients configured_client_defaults)

theorem same_defaults_for_listing_and_download_witness:
  "settings w0 ''Mergin/URL'' = None \<and> settings w0 ''Mergin/username'' = None
   \<and> settings w0 ''Mergin/password'' = None \<and> getExistingDirectory env0 \<noteq> []
   \<and> clients_used (new_events w0 (snd (createChildren env0 w0)))
       = [\<lparr>url = ''https://public.cloudmergin.com'', username = [], password = []\<rparr>,
          \<lparr>url = ''https://public.cloudmergin.com'', username = [], password = []\<rparr>]
   \<and> url ` set (clients_used (new_events w0 (snd (snd (download env0 item_remote w0)))))
       = {''https://public.cloudmergin.com''}
   \<and> username ` set (clients_used (new_events w0 (snd (snd (download env0 item_remote w0))))) = {[]}
   \<and> password ` set (clients_used (new_events w0 (snd (snd (download env0 item_remote w0))))) = {[]}"
proof -
  have s: "settings w0 ''Mergin/URL'' = None" "settings w0 ''Mergin/username'' = None"
      "settings w0 ''Mergin/password'' = None"
    by (simp_all add: w0_def)
  have d: "getExistingDirectory env0 \<noteq> []"
    by (simp add: env0_def)
  have c: "clients_used (new_events w0 (snd (createChildren env0 w0)))
       = [\<lparr>url = ''https://public.cloudmergin.com'', username = [], password = []\<rparr>,
          \<lparr>url = ''https://public.cloudmergin.com'', username = [], password = []\<rparr>]"
    by (simp add: createChildren_def env0_def w0_def prims Let_def split_def
          MerginProjectItem_init_def)
  show ?thesis
    using s d c same_defaults_for_listing_and_download [of w0 env0 item_remote]
    by simp
qed

subsection \<open>Settings keys\<close>




end
